theory Spec2Isabelle
  imports Complex_Main "HOL-Library.Sublist"
begin

section \<open>Conventions of the embedding\<close>

text \<open>
  Python floats are modelled by real numbers: no rounding, no NaN, no infinities.
  A decimal literal of the source (0.2, 0.7, 0.9) is the real number it denotes.
  Python ints are \<open>int\<close>. Strings are \<open>string\<close> (ASCII).
  A dictionary whose keys are fixed by the code that writes it is a record of optional
  fields: \<open>None\<close> means the key is absent, and \<open>d.get(k, default)\<close> reads the field
  with the default for \<open>None\<close>. A dictionary from metric names to floats is an
  association list. One-dimensional numpy arrays are lists.
\<close>

section \<open>validation/metrics.py\<close>

text \<open>\<open>np.mean\<close> of a one-dimensional float array.\<close>

definition np_mean :: "real list \<Rightarrow> real" where
  "np_mean xs = sum_list xs / real (length xs)"

text \<open>
  \<open>np.mean(cf_sign == baseline_sign)\<close>: the element-wise comparison of two sign arrays
  of the same size, read as 0/1, then averaged.
\<close>

definition sign_eq_mean :: "real list \<Rightarrow> real list \<Rightarrow> real" where
  "sign_eq_mean cf baseline =
     np_mean (map (\<lambda>(c, b). if sgn c = sgn b then 1 else 0) (zip cf baseline))"

text \<open>The body of the loop of \<open>prediction_consistency\<close>: what one scenario appends.\<close>

definition scenario_match :: "real list \<Rightarrow> real list \<Rightarrow> real" where
  "scenario_match baseline cf =
     (if length cf \<noteq> length baseline then 0 else sign_eq_mean cf baseline)"

definition prediction_consistency :: "real list \<Rightarrow> real list list \<Rightarrow> real" where
  "prediction_consistency baseline counterfactual_predictions =
     (if baseline = [] \<or> counterfactual_predictions = [] then 0
      else np_mean (map (scenario_match baseline) counterfactual_predictions))"

text \<open>
  \<open>build_consistency_report\<close> returns a dictionary with the single key
  \<open>prediction_consistency\<close>. The record has the three fields a consistency report can
  carry in this repository; the ones a function does not write are \<open>None\<close>.
\<close>

record consistency_report =
  cons_prediction_consistency :: "real option"
  cons_flagged :: "bool option"
  cons_reason :: "string option"
  cons_threshold :: "real option"

definition build_consistency_report :: "real list \<Rightarrow> real list list \<Rightarrow> consistency_report" where
  "build_consistency_report baseline counterfactual_predictions =
     (let pc = prediction_consistency baseline counterfactual_predictions
      in \<lparr>cons_prediction_consistency = Some pc, cons_flagged = None, cons_reason = None,
          cons_threshold = None\<rparr>)"

subsection \<open>The score as the specification words it\<close>

text \<open>
  The fraction of positions whose sign agrees with the baseline, 0 for a scenario of
  another length; then the arithmetic mean over the scenarios.
\<close>

definition spec_match_fraction :: "real list \<Rightarrow> real list \<Rightarrow> real" where
  "spec_match_fraction baseline cf =
     (if length cf \<noteq> length baseline then 0
      else real (length (filter (\<lambda>i. sgn (cf ! i) = sgn (baseline ! i)) [0..<length baseline]))
           / real (length baseline))"

definition spec_consistency :: "real list \<Rightarrow> real list list \<Rightarrow> real" where
  "spec_consistency baseline cfs =
     (\<Sum>cf\<leftarrow>cfs. spec_match_fraction baseline cf) / real (length cfs)"

section \<open>Exceptions and opaque payloads\<close>

text \<open>
  The exceptions the modelled code raises, with their messages. A function that can
  raise returns \<open>error + 'a\<close>, \<open>Inl\<close> being the exception.
\<close>

datatype error = ToolSafetyError string | RuntimeError string | ValueError string
  | KeyError string

text \<open>
  Values the workflow stores and forwards without inspecting them (rows of market data,
  signal markers, analysis summaries).
\<close>

datatype pyval = PNone | PBool bool | PNum real | PStr string
  | PList "pyval list" | PDict "(string \<times> pyval) list"

type_synonym pydict = "(string \<times> pyval) list"

text \<open>\<open>d | {k: v}\<close> and \<open>d[k] = v\<close>: an existing key keeps its position, a new one is appended.\<close>

fun dict_set :: "string \<Rightarrow> 'v \<Rightarrow> (string \<times> 'v) list \<Rightarrow> (string \<times> 'v) list" where
  "dict_set k v [] = [(k, v)]"
| "dict_set k v ((k', v') # d) = (if k' = k then (k, v) # d else (k', v') # dict_set k v d)"

definition dict_get :: "(string \<times> 'v) list \<Rightarrow> string \<Rightarrow> 'v \<Rightarrow> 'v" where
  "dict_get d k dflt = (case map_of d k of None \<Rightarrow> dflt | Some v \<Rightarrow> v)"

text \<open>\<open>o.get(k, default)\<close> on a record field that may be absent.\<close>

definition get_or :: "'a option \<Rightarrow> 'a \<Rightarrow> 'a" where
  "get_or field dflt = (case field of None \<Rightarrow> dflt | Some v \<Rightarrow> v)"

text \<open>Truth value of an \<open>Optional[str]\<close>: \<open>None\<close> and the empty string are false.\<close>

definition truthy :: "string option \<Rightarrow> bool" where
  "truthy r = (case r of None \<Rightarrow> False | Some t \<Rightarrow> t \<noteq> [])"

subsection \<open>\<open>str.lower\<close>, \<open>str.strip\<close> and \<open>in\<close> on ASCII strings\<close>

definition lower_char :: "char \<Rightarrow> char" where
  "lower_char c =
     (let n = (of_char c :: nat) in if 65 \<le> n \<and> n \<le> 90 then char_of (n + 32) else c)"

definition lower :: "string \<Rightarrow> string" where
  "lower t = map lower_char t"

definition is_space :: "char \<Rightarrow> bool" where
  "is_space c = (let n = (of_char c :: nat) in (9 \<le> n \<and> n \<le> 13) \<or> (28 \<le> n \<and> n \<le> 32))"

definition strip :: "string \<Rightarrow> string" where
  "strip t = rev (dropWhile is_space (rev (dropWhile is_space t)))"

text \<open>\<open>a in b\<close> for strings is \<open>sublist a b\<close>: \<open>a\<close> occurs as a contiguous part of \<open>b\<close>.\<close>

section \<open>The world outside the workflow\<close>

text \<open>
  The numpy generator is a state of type \<open>'g\<close> with the three operations the code
  calls; each draw returns the advanced state. Nothing is assumed about them.
\<close>

record 'g rng_ops =
  default_rng :: "int \<Rightarrow> 'g"
  rng_normal :: "'g \<Rightarrow> real \<Rightarrow> real \<Rightarrow> nat \<Rightarrow> real list \<times> 'g"
  rng_integers :: "'g \<Rightarrow> int \<Rightarrow> int \<Rightarrow> int \<times> 'g"

text \<open>
  What the workflow reads from its surroundings. Node executions of one run are numbered
  0, 1, 2, ...; \<open>pause_flag_exists k\<close> is \<open>os.path.exists(PAUSE_FLAG)\<close> when the
  \<open>k\<close>-th node starts, \<open>yf_download k\<close> is what \<open>yf.download\<close> does when that node
  calls it (\<open>Inl\<close> an exception's text, \<open>Inr\<close> the rows), \<open>approval_file\<close> is the
  content of the approval flag file when the approval node looks (\<open>None\<close>: no file).
  The pandas computations of \<open>run_analysis\<close> on the rows are \<open>rsi_signals\<close>,
  \<open>rsi_last\<close> and \<open>max_drawdown_of\<close>.
\<close>

record 'g world =
  pause_flag_exists :: "nat \<Rightarrow> bool"
  approval_file :: "string option"
  yf_download :: "nat \<Rightarrow> string + pyval list"
  rsi_signals :: "pyval list \<Rightarrow> pyval list"
  rsi_last :: "pyval list \<Rightarrow> real"
  max_drawdown_of :: "pyval list \<Rightarrow> real"
  rng :: "'g rng_ops"

section \<open>orchestration/tools.py\<close>

definition fetch_market_data :: "'g world \<Rightarrow> nat \<Rightarrow> (string \<times> string) list \<Rightarrow> error + pydict" where
  "fetch_market_data w k params =
     (let symbol = dict_get params ''symbol'' ''AAPL'';
          start = dict_get params ''start'' ''2022-01-01'';
          end' = dict_get params ''end'' ''2022-12-31'';
          interval = dict_get params ''interval'' ''1d''
      in case yf_download w k of
           Inl exc \<Rightarrow> Inl (ToolSafetyError (''yfinance failed: '' @ exc))
         | Inr data \<Rightarrow>
             if data = [] then Inl (ToolSafetyError ''No market data returned from yfinance.'')
             else Inr [(''symbol'', PStr symbol), (''start'', PStr start), (''end'', PStr end'),
                       (''interval'', PStr interval), (''ohlcv'', PList data)])"

text \<open>
  \<open>clean_data\<close> wraps the raw dictionary and the data frame built from its rows; the
  frame is represented by its rows.
\<close>

record cleaned_data =
  cleaned :: pydict
  dataframe :: "pyval list"
  cleaning_notes :: string

definition clean_data :: "pydict \<Rightarrow> cleaned_data" where
  "clean_data raw =
     (let ohlcv = (case dict_get raw ''ohlcv'' (PList []) of PList rows \<Rightarrow> rows | _ \<Rightarrow> [])
      in \<lparr>cleaned = raw, dataframe = ohlcv, cleaning_notes = ''Basic normalization applied''\<rparr>)"

text \<open>The dictionary \<open>run_analysis\<close> returns; \<open>None\<close> is a key it did not write.\<close>

record analysis_result =
  res_analysis :: "pyval option"
  res_inputs :: "cleaned_data option"
  res_signals :: "pyval list option"
  res_risk_metrics :: "(string \<times> real) list option"

definition run_analysis :: "'g world \<Rightarrow> cleaned_data \<Rightarrow> analysis_result" where
  "run_analysis w c =
     (let df = dataframe c
      in if df = [] then
           \<lparr>res_analysis = Some (PStr ''No data''), res_inputs = Some c,
            res_signals = None, res_risk_metrics = None\<rparr>
         else
           (let signals = rsi_signals w df;
                analysis = PDict [(''rsi_last'', PNum (rsi_last w df)),
                                  (''signal_count'', PNum (real (length signals)))];
                risk_metrics = [(''max_drawdown'', max_drawdown_of w df), (''exposure'', 1)]
            in \<lparr>res_analysis = Some analysis, res_inputs = Some c,
                res_signals = Some signals, res_risk_metrics = Some risk_metrics\<rparr>))"

record symbol_report =
  checked_symbols :: "string list"
  restricted :: "string list"
  sym_violations :: "string list"
  sym_status :: string

definition check_restricted_symbols :: "string list \<Rightarrow> symbol_report" where
  "check_restricted_symbols symbols =
     (let restricted_set = ([] :: string list);
          violations = filter (\<lambda>s. s \<in> set restricted_set) symbols
      in \<lparr>checked_symbols = symbols, restricted = restricted_set, sym_violations = violations,
          sym_status = (if violations = [] then ''pass'' else ''fail'')\<rparr>)"

record wash_sale_report =
  checked_trades :: "pydict list"
  wash_status :: string
  wash_note :: string

definition check_wash_sale_patterns :: "pydict list \<Rightarrow> wash_sale_report" where
  "check_wash_sale_patterns trades =
     \<lparr>checked_trades = trades,
      wash_status = (if trades = [] then ''pass'' else ''fail''),
      wash_note = ''Research-only system should not include trade data.''\<rparr>"

section \<open>orchestration/agents.py\<close>

record agent_config =
  agent_name :: string
  system_prompt :: string
  allowed_tools :: "string list"
  temperature :: real

definition validate_tool_access :: "agent_config \<Rightarrow> string \<Rightarrow> error + unit" where
  "validate_tool_access config tool_name =
     (if tool_name \<notin> set (allowed_tools config) then
        Inl (ToolSafetyError (''Tool '' @ [CHR 0x27] @ tool_name @ [CHR 0x27]
                              @ '' not allowed for agent '' @ agent_name config @ ''.''))
      else Inr ())"

definition planner_plan :: "string \<Rightarrow> string list" where
  "planner_plan hyp =
     [''Restate hypothesis: '' @ hyp,
      ''Identify required datasets and constraints'',
      ''Outline feature engineering steps'',
      ''Define evaluation protocol and bias checks'']"

text \<open>\<open>"\n".join(lines)\<close>\<close>

fun join_lines :: "string list \<Rightarrow> string" where
  "join_lines [] = []"
| "join_lines [l] = l"
| "join_lines (l # ls) = l @ [CHR 0x0A] @ join_lines ls"

definition executor_code_snippet :: string where
  "executor_code_snippet = join_lines
     [''import pandas as pd'',
      ''import yfinance as yf'',
      [],
      ''def run_research(symbol: str, start: str, end: str) -> pd.DataFrame:'',
      ''    data = yf.download(symbol, start=start, end=end)'',
      ''    data['' @ [CHR 0x27] @ ''rsi'' @ [CHR 0x27] @ ''] = compute_rsi(data[''
         @ [CHR 0x27] @ ''Close'' @ [CHR 0x27] @ ''])'',
      ''    # TODO: integrate news sentiment safely via approved source'',
      ''    return data'',
      [],
      ''def compute_rsi(series: pd.Series, period: int = 14) -> pd.Series:'',
      ''    delta = series.diff()'',
      ''    gain = delta.clip(lower=0)'',
      ''    loss = -delta.clip(upper=0)'',
      ''    avg_gain = gain.rolling(period).mean()'',
      ''    avg_loss = loss.rolling(period).mean()'',
      ''    rs = avg_gain / avg_loss'',
      ''    return 100 - (100 / (1 + rs))'']"

text \<open>
  The artifacts dictionary. The executor writes every key but \<open>predictions\<close>, which only
  the critic node reads.
\<close>

record artifacts =
  art_plan :: "string list option"
  art_code_snippet :: "string option"
  art_market_data_request :: "(string \<times> string) list option"
  art_market_data :: "pydict option"
  art_analysis :: "pyval option"
  art_risk_metrics :: "(string \<times> real) list option"
  art_predictions :: "real list option"

definition empty_artifacts :: artifacts where
  "empty_artifacts =
     \<lparr>art_plan = None, art_code_snippet = None, art_market_data_request = None,
      art_market_data = None, art_analysis = None, art_risk_metrics = None,
      art_predictions = None\<rparr>"

definition executor_execute ::
  "agent_config \<Rightarrow> 'g world \<Rightarrow> nat \<Rightarrow> string list \<Rightarrow> error + artifacts" where
  "executor_execute config w k plan_steps =
     (let arts = empty_artifacts\<lparr>art_plan := Some plan_steps\<rparr>;
          arts = arts\<lparr>art_code_snippet := Some executor_code_snippet\<rparr>;
          market_request = [(''symbol'', ''AAPL''), (''start'', ''2022-01-01''),
                            (''end'', ''2022-12-31'')];
          arts = arts\<lparr>art_market_data_request := Some market_request\<rparr>
      in case validate_tool_access config ''fetch_market_data'' of
           Inl e \<Rightarrow> Inl e
         | Inr _ \<Rightarrow>
        (case fetch_market_data w k market_request of
           Inl e \<Rightarrow> Inl e
         | Inr md \<Rightarrow>
        (case validate_tool_access config ''clean_data'' of
           Inl e \<Rightarrow> Inl e
         | Inr _ \<Rightarrow>
        (let c = clean_data md
         in case validate_tool_access config ''run_analysis'' of
           Inl e \<Rightarrow> Inl e
         | Inr _ \<Rightarrow>
        (let analysis = run_analysis w c;
             arts = arts\<lparr>art_market_data :=
                      Some (dict_set ''signals'' (PList (get_or (res_signals analysis) [])) md)\<rparr>;
             arts = arts\<lparr>art_analysis := Some (get_or (res_analysis analysis) (PDict []))\<rparr>;
             arts = arts\<lparr>art_risk_metrics := Some (get_or (res_risk_metrics analysis) [])\<rparr>
         in Inr arts)))))"

text \<open>The critic's report; the critic node adds \<open>counterfactual\<close> to it.\<close>

record critic_report =
  look_ahead_bias :: "string option"
  overfitting :: "string option"
  leakage :: "string option"
  reproducibility :: "string option"
  veto :: "bool option"
  crit_confidence :: "real option"
  crit_critique_score :: "real option"
  crit_notes :: "string option"
  counterfactual :: "consistency_report option"

definition empty_critic_report :: critic_report where
  "empty_critic_report =
     \<lparr>look_ahead_bias = None, overfitting = None, leakage = None, reproducibility = None,
      veto = None, crit_confidence = None, crit_critique_score = None, crit_notes = None,
      counterfactual = None\<rparr>"

text \<open>\<open>json.loads(json.dumps(report))\<close> returns an equal dictionary for this report.\<close>

definition critic_evaluate :: "artifacts \<Rightarrow> critic_report" where
  "critic_evaluate arts =
     (let snippet = get_or (art_code_snippet arts) [];
          look_ahead_risk =
            (if sublist ''shift(-'' snippet \<or> sublist ''future'' (lower snippet)
             then ''high'' else ''low'');
          score = (if look_ahead_risk = ''low'' then 9 / 10 else 4 / 10 :: real);
          v = (score < 8 / 10)
      in \<lparr>look_ahead_bias = Some look_ahead_risk, overfitting = Some ''unknown'',
          leakage = Some ''unknown'', reproducibility = Some ''unknown'',
          veto = Some v, crit_confidence = Some score, crit_critique_score = Some score,
          crit_notes = Some ''Heuristic review completed.'', counterfactual = None\<rparr>)"

record compliance_report =
  comp_symbol_report :: "symbol_report option"
  comp_wash_sale_report :: "wash_sale_report option"
  comp_status :: "string option"

definition empty_compliance_report :: compliance_report where
  "empty_compliance_report =
     \<lparr>comp_symbol_report = None, comp_wash_sale_report = None, comp_status = None\<rparr>"

definition compliance_review ::
  "agent_config \<Rightarrow> string list \<Rightarrow> pydict list \<Rightarrow> error + compliance_report" where
  "compliance_review config symbols trades =
     (case validate_tool_access config ''check_restricted_symbols'' of
        Inl e \<Rightarrow> Inl e
      | Inr _ \<Rightarrow>
     (let sr = check_restricted_symbols symbols
      in case validate_tool_access config ''check_wash_sale_patterns'' of
        Inl e \<Rightarrow> Inl e
      | Inr _ \<Rightarrow>
     (let wr = check_wash_sale_patterns trades;
          status = (if sym_status sr = ''pass'' \<and> wash_status wr = ''pass''
                    then ''pass'' else ''fail'')
      in Inr \<lparr>comp_symbol_report = Some sr, comp_wash_sale_report = Some wr,
              comp_status = Some status\<rparr>)))"

record risk_report =
  risk_status :: "string option"
  risk_violations :: "string list option"
  risk_metrics :: "(string \<times> real) list option"
  risk_limits :: "(string \<times> real) list option"

definition empty_risk_report :: risk_report where
  "empty_risk_report =
     \<lparr>risk_status = None, risk_violations = None, risk_metrics = None, risk_limits = None\<rparr>"

text \<open>
  \<open>limits["max_drawdown"]\<close> reads a key the function has just written, so the lookup
  cannot fail; its default here is that same value.
\<close>

definition risk_manager_evaluate :: "artifacts \<Rightarrow> risk_report" where
  "risk_manager_evaluate arts =
     (let rm = get_or (art_risk_metrics arts) [];
          max_drawdown = dict_get rm ''max_drawdown'' 0;
          exposure = dict_get rm ''exposure'' 0;
          limits = [(''max_drawdown'', 2 / 10), (''exposure'', 1 :: real)];
          violations = [];
          violations = (if max_drawdown > dict_get limits ''max_drawdown'' (2 / 10)
                        then violations @ [''max_drawdown''] else violations);
          violations = (if exposure > dict_get limits ''exposure'' 1
                        then violations @ [''exposure''] else violations);
          status = (if violations = [] then ''pass'' else ''fail'')
      in \<lparr>risk_status = Some status, risk_violations = Some violations,
          risk_metrics = Some [(''max_drawdown'', max_drawdown), (''exposure'', exposure)],
          risk_limits = Some limits\<rparr>)"

definition PLANNER :: agent_config where
  "PLANNER = \<lparr>agent_name = ''Planner'',
     system_prompt = ''You decompose hypotheses into research steps. No data access.'',
     allowed_tools = [], temperature = 2 / 10\<rparr>"

definition EXECUTOR :: agent_config where
  "EXECUTOR = \<lparr>agent_name = ''Executor'',
     system_prompt = ''You fetch and clean data, and run analysis only. No evaluation or trading.'',
     allowed_tools = [''clean_data'', ''run_analysis'', ''fetch_market_data''],
     temperature = 2 / 10\<rparr>"

definition CRITIC :: agent_config where
  "CRITIC = \<lparr>agent_name = ''Critic'',
     system_prompt = ''You evaluate for bias, leakage, and reproducibility. You can veto.'',
     allowed_tools = [], temperature = 1 / 10\<rparr>"

definition COMPLIANCE :: agent_config where
  "COMPLIANCE = \<lparr>agent_name = ''ComplianceOfficer'',
     system_prompt = ''You check restricted symbols and wash-sale patterns. No modifications allowed.'',
     allowed_tools = [''check_restricted_symbols'', ''check_wash_sale_patterns''],
     temperature = 1 / 10\<rparr>"

definition RISK_MANAGER :: agent_config where
  "RISK_MANAGER = \<lparr>agent_name = ''RiskManager'',
     system_prompt = ''You enforce max drawdown and exposure limits.'',
     allowed_tools = [], temperature = 1 / 10\<rparr>"

section \<open>validation/counterfactual.py\<close>

record counterfactual_config =
  scenarios :: int
  price_noise_std :: real
  earnings_shift_days :: int

definition default_counterfactual_config :: counterfactual_config where
  "default_counterfactual_config =
     \<lparr>scenarios = 50, price_noise_std = 1 / 100, earnings_shift_days = 3\<rparr>"

text \<open>The three keys of the dataset the generator reads; \<open>None\<close> is a missing key.\<close>

record dataset =
  ds_prices :: "real list option"
  ds_earnings_dates :: "int list option"
  ds_sentiment :: "real list option"

definition empty_dataset :: dataset where
  "empty_dataset = \<lparr>ds_prices = None, ds_earnings_dates = None, ds_sentiment = None\<rparr>"

record scenario =
  sc_prices :: "real list"
  sc_earnings_dates :: "int list"
  sc_sentiment :: "real list"
  scenario_id :: int

text \<open>
  \<open>Generator.normal\<close> rejects a negative scale and \<open>Generator.integers\<close> an empty
  range, each with a \<open>ValueError\<close>; otherwise they draw and advance the generator.
\<close>

definition normal ::
  "'g rng_ops \<Rightarrow> 'g \<Rightarrow> real \<Rightarrow> real \<Rightarrow> nat \<Rightarrow> error + (real list \<times> 'g)" where
  "normal ops g loc scale n =
     (if scale < 0 then Inl (ValueError ''scale < 0'') else Inr (rng_normal ops g loc scale n))"

definition integers :: "'g rng_ops \<Rightarrow> 'g \<Rightarrow> int \<Rightarrow> int \<Rightarrow> error + (int \<times> 'g)" where
  "integers ops g low high =
     (if low \<ge> high then Inl (ValueError ''low >= high'') else Inr (rng_integers ops g low high))"

definition shift_earnings_dates :: "int list \<Rightarrow> int \<Rightarrow> int list" where
  "shift_earnings_dates dates shift = map (\<lambda>d. d + shift) dates"

text \<open>\<open>range(n)\<close>\<close>

definition py_range :: "int \<Rightarrow> int list" where
  "py_range n = map int [0..<nat n]"

text \<open>
  The loop of \<open>generate_counterfactuals\<close> over the remaining indices, with the generator
  and the list built so far.
\<close>

fun counterfactual_loop ::
  "'g rng_ops \<Rightarrow> counterfactual_config \<Rightarrow> real list \<Rightarrow> int list \<Rightarrow> real list
   \<Rightarrow> 'g \<Rightarrow> int list \<Rightarrow> scenario list \<Rightarrow> error + scenario list" where
  "counterfactual_loop ops config prices earnings sentiment g [] counterfactuals =
     Inr counterfactuals"
| "counterfactual_loop ops config prices earnings sentiment g (i # rest) counterfactuals =
     (case normal ops g 0 (price_noise_std config) (length prices) of
        Inl e \<Rightarrow> Inl e
      | Inr (noise, g1) \<Rightarrow>
     (let price_cf = map (\<lambda>(p, z). p + z) (zip prices noise)
      in case integers ops g1 (- earnings_shift_days config) (earnings_shift_days config + 1) of
        Inl e \<Rightarrow> Inl e
      | Inr (shift, g2) \<Rightarrow>
     (let earnings_cf = shift_earnings_dates earnings shift;
          sentiment_cf = map uminus sentiment
      in counterfactual_loop ops config prices earnings sentiment g2 rest
           (counterfactuals @
            [\<lparr>sc_prices = price_cf, sc_earnings_dates = earnings_cf,
              sc_sentiment = sentiment_cf, scenario_id = i\<rparr>]))))"

definition generate_counterfactuals ::
  "'g rng_ops \<Rightarrow> dataset \<Rightarrow> counterfactual_config \<Rightarrow> int \<Rightarrow> error + scenario list" where
  "generate_counterfactuals ops data config seed =
     (let g = default_rng ops seed;
          prices = get_or (ds_prices data) [];
          earnings = get_or (ds_earnings_dates data) [];
          sentiment = get_or (ds_sentiment data) []
      in counterfactual_loop ops config prices earnings sentiment g (py_range (scenarios config)) [])"

section \<open>validation/factfin_validator.py\<close>

record factfin_config =
  ff_scenarios :: int
  ff_price_noise_std :: real
  ff_earnings_shift_days :: int
  consistency_threshold :: real

definition default_factfin_config :: factfin_config where
  "default_factfin_config =
     \<lparr>ff_scenarios = 10, ff_price_noise_std = 1 / 100, ff_earnings_shift_days = 3,
      consistency_threshold = 7 / 10\<rparr>"

text \<open>
  A pandas data frame is a value of type \<open>'df\<close>. \<open>df_empty\<close> is \<open>df.empty\<close>, and
  \<open>perturb_frame\<close> is the body of the loop of \<open>perturb_data\<close>: it builds one scenario
  from the base frame, drawing from the generator.
\<close>

record ('df, 'g) frame_ops =
  df_empty :: "'df \<Rightarrow> bool"
  perturb_frame :: "factfin_config \<Rightarrow> 'g \<Rightarrow> 'df \<Rightarrow> 'df \<times> 'g"

fun perturb_loop ::
  "('df, 'g) frame_ops \<Rightarrow> factfin_config \<Rightarrow> 'df \<Rightarrow> 'g \<Rightarrow> int list \<Rightarrow> 'df list \<Rightarrow> 'df list" where
  "perturb_loop fops config base g [] acc = acc"
| "perturb_loop fops config base g (i # rest) acc =
     (case perturb_frame fops config g base of
        (cf, g1) \<Rightarrow> perturb_loop fops config base g1 rest (acc @ [cf]))"

definition perturb_data ::
  "('df, 'g) frame_ops \<Rightarrow> 'g rng_ops \<Rightarrow> factfin_config \<Rightarrow> 'df \<Rightarrow> int \<Rightarrow> 'df list" where
  "perturb_data fops ops config df seed =
     (let g = default_rng ops seed
      in if df_empty fops df then []
         else perturb_loop fops config df g (py_range (ff_scenarios config)) [])"

text \<open>
  The dictionary the executor callable returns. A scalar prediction is a vector of
  length one (\<open>np.atleast_1d\<close>).
\<close>

record executor_result =
  prediction :: "real list option"
  signal :: "real list option"
  recommendation :: "string option"

definition extract_recommendation :: "executor_result \<Rightarrow> real list" where
  "extract_recommendation result =
     (case prediction result of Some p \<Rightarrow> p | None \<Rightarrow>
     (case signal result of Some sg \<Rightarrow> sg | None \<Rightarrow>
     (case recommendation result of
        Some rec \<Rightarrow> [dict_get [(''buy'', 1), (''sell'', - 1), (''hold'', 0)] (lower rec) 0]
      | None \<Rightarrow> [])))"

definition consistency_check ::
  "('df, 'g) frame_ops \<Rightarrow> 'g rng_ops \<Rightarrow> factfin_config \<Rightarrow> ('df \<Rightarrow> executor_result) \<Rightarrow> 'df
   \<Rightarrow> consistency_report" where
  "consistency_check fops ops config executor df =
     (let scs = perturb_data fops ops config df 7
      in if scs = [] then
           \<lparr>cons_prediction_consistency = Some 0, cons_flagged = Some True,
            cons_reason = Some ''empty data'', cons_threshold = None\<rparr>
         else
          (let baseline = extract_recommendation (executor df)
           in if baseline = [] then
                \<lparr>cons_prediction_consistency = Some 0, cons_flagged = Some True,
                 cons_reason = Some ''missing baseline prediction'', cons_threshold = None\<rparr>
              else
               (let matches = map (\<lambda>sc. scenario_match baseline (extract_recommendation (executor sc))) scs;
                    pc = (if matches \<noteq> [] then np_mean matches else 0);
                    flagged = (pc < consistency_threshold config)
                in \<lparr>cons_prediction_consistency = Some pc, cons_flagged = Some flagged,
                    cons_reason = None, cons_threshold = Some (consistency_threshold config)\<rparr>)))"

section \<open>orchestration/state.py\<close>

record message =
  role :: string
  content :: string

record graph_state =
  hypothesis :: string
  messages :: "message list"
  market_data :: pydict
  code_snippet :: string
  critique_score :: real
  human_approval :: bool
  awaiting_approval :: bool
  plan :: "string list"
  executor_artifacts :: artifacts
  critic_report :: critic_report
  compliance_report :: compliance_report
  risk_report :: risk_report
  retry_count :: int
  max_retries :: int
  pause_requested :: bool
  confidence :: real
  logs :: "string list"
  failure_reason :: "string option"
  active_node :: string

text \<open>\<open>GraphState(hypothesis=h, max_retries=m)\<close>: every other field has its default.\<close>

definition GraphState :: "string \<Rightarrow> int \<Rightarrow> graph_state" where
  "GraphState h m =
     \<lparr>hypothesis = h, messages = [], market_data = [], code_snippet = [],
      critique_score = 0, human_approval = False, awaiting_approval = False, plan = [],
      executor_artifacts = empty_artifacts, critic_report = empty_critic_report,
      compliance_report = empty_compliance_report, risk_report = empty_risk_report,
      retry_count = 0, max_retries = m, pause_requested = False, confidence = 0,
      logs = [], failure_reason = None, active_node = []\<rparr>"

definition state_log :: "string \<Rightarrow> graph_state \<Rightarrow> graph_state" where
  "state_log msg state = state\<lparr>logs := logs state @ [msg]\<rparr>"

definition append_message :: "string \<Rightarrow> string \<Rightarrow> graph_state \<Rightarrow> graph_state" where
  "append_message r c state = state\<lparr>messages := messages state @ [\<lparr>role = r, content = c\<rparr>]\<rparr>"

section \<open>orchestration/graph.py\<close>

text \<open>
  The module constants read from the process environment: \<open>MAX_RETRIES\<close>,
  \<open>PC_THRESHOLD\<close> and the text \<open>PC_THRESHOLD\<close> is formatted to in the critic's note.
\<close>

record settings =
  MAX_RETRIES :: int
  PC_THRESHOLD :: real
  PC_THRESHOLD_text :: string

definition default_settings :: settings where
  "default_settings = \<lparr>MAX_RETRIES = 2, PC_THRESHOLD = 7 / 10, PC_THRESHOLD_text = ''0.7''\<rparr>"

definition ensure_not_paused :: "bool \<Rightarrow> graph_state \<Rightarrow> graph_state" where
  "ensure_not_paused flag_exists state =
     (if pause_requested state \<or> flag_exists
      then state\<lparr>failure_reason := Some ''Paused by operator.''\<rparr>
      else state)"

definition planner_node :: "'g world \<Rightarrow> nat \<Rightarrow> graph_state \<Rightarrow> graph_state" where
  "planner_node w k state0 =
     (let state = ensure_not_paused (pause_flag_exists w k) state0
      in if truthy (failure_reason state) then state
         else
          (let state = state\<lparr>active_node := ''planner''\<rparr>;
               state = state\<lparr>plan := planner_plan (hypothesis state)\<rparr>;
               state = append_message ''planner'' ''Plan created.'' state;
               state = state_log ''Planner produced research plan'' state
           in state))"

definition executor_node :: "'g world \<Rightarrow> nat \<Rightarrow> graph_state \<Rightarrow> error + graph_state" where
  "executor_node w k state0 =
     (let state = ensure_not_paused (pause_flag_exists w k) state0
      in if truthy (failure_reason state) then Inr state
         else
          (let state = state\<lparr>active_node := ''executor''\<rparr>
           in case executor_execute EXECUTOR w k (plan state) of
                Inl e \<Rightarrow> Inl e
              | Inr arts \<Rightarrow>
               (let state = state\<lparr>executor_artifacts := arts\<rparr>;
                    state = state\<lparr>code_snippet :=
                              get_or (art_code_snippet (executor_artifacts state)) []\<rparr>;
                    state = state\<lparr>market_data :=
                              get_or (art_market_data (executor_artifacts state)) []\<rparr>;
                    state = append_message ''executor'' ''Code generated (not executed).'' state;
                    state = state_log ''Executor produced analysis artifacts'' state
                in case compliance_review COMPLIANCE [] [] of
                     Inl e \<Rightarrow> Inl e
                   | Inr rep \<Rightarrow>
                    (let state = state\<lparr>compliance_report := rep\<rparr>;
                         state = state_log ''Compliance review completed'' state
                     in Inr state))))"

text \<open>\<open>np.asarray(values, dtype=float)\<close> of a list of floats.\<close>

definition to_array :: "real list \<Rightarrow> real list" where
  "to_array values = values"

text \<open>
  Lines 83 to 97 of \<open>critic_node\<close>: the threshold check on the consistency score, then
  the retry decision.
\<close>

definition critic_threshold_check :: "settings \<Rightarrow> real \<Rightarrow> graph_state \<Rightarrow> graph_state" where
  "critic_threshold_check cfg pc state =
     (if pc < PC_THRESHOLD cfg then
        (let state = state\<lparr>critic_report := (critic_report state)\<lparr>veto := Some True\<rparr>\<rparr>;
             state = state\<lparr>critic_report := (critic_report state)\<lparr>crit_notes :=
                       Some (get_or (crit_notes (critic_report state)) []
                             @ '' PC below threshold '' @ PC_THRESHOLD_text cfg @ ''.'')\<rparr>\<rparr>
         in state)
      else state)"

definition critic_retry_decision :: "graph_state \<Rightarrow> graph_state" where
  "critic_retry_decision state =
     (if get_or (veto (critic_report state)) False then
        (if retry_count state < max_retries state then
           (let state = state\<lparr>retry_count := retry_count state + 1\<rparr>
            in state_log ''Critic vetoed; retrying executor'' state)
         else state\<lparr>failure_reason := Some ''Max retries exceeded after critic veto.''\<rparr>)
      else state)"

text \<open>
  Lines 63 to 81 of \<open>critic_node\<close>: the counterfactual check on stubbed inputs and the
  critic's report. The result is the state and
  \<open>consistency_report["prediction_consistency"]\<close>.
\<close>

definition critic_review :: "'g world \<Rightarrow> graph_state \<Rightarrow> error + (real \<times> graph_state)" where
  "critic_review w state0 =
     (let state = state0\<lparr>active_node := ''critic''\<rparr>;
          baseline_predictions = get_or (art_predictions (executor_artifacts state)) []
      in case generate_counterfactuals (rng w) empty_dataset default_counterfactual_config 7 of
           Inl e \<Rightarrow> Inl e
         | Inr counterfactuals \<Rightarrow>
          (let cf_predictions = map (\<lambda>_. []) counterfactuals;
               consistency = build_consistency_report (to_array baseline_predictions)
                               (map to_array cf_predictions);
               report = critic_evaluate (executor_artifacts state);
               report = report\<lparr>counterfactual := Some consistency\<rparr>;
               state = state\<lparr>critic_report := report\<rparr>;
               state = state\<lparr>confidence := get_or (crit_confidence report) 0\<rparr>;
               state = state\<lparr>critique_score :=
                         get_or (crit_critique_score report) (confidence state)\<rparr>;
               state = append_message ''critic'' ''Critic review complete.'' state
           in case cons_prediction_consistency consistency of
                None \<Rightarrow> Inl (KeyError ''prediction_consistency'')
              | Some pc \<Rightarrow> Inr (pc, state)))"

definition critic_node :: "'g world \<Rightarrow> settings \<Rightarrow> nat \<Rightarrow> graph_state \<Rightarrow> error + graph_state" where
  "critic_node w cfg k state0 =
     (let state = ensure_not_paused (pause_flag_exists w k) state0
      in if truthy (failure_reason state) then Inr state
         else
          (case critic_review w state of
             Inl e \<Rightarrow> Inl e
           | Inr (pc, state) \<Rightarrow>
              (let state = critic_threshold_check cfg pc state;
                   state = critic_retry_decision state;
                   state = state_log ''Critic issued report'' state
               in Inr state)))"

definition risk_manager_node :: "'g world \<Rightarrow> nat \<Rightarrow> graph_state \<Rightarrow> graph_state" where
  "risk_manager_node w k state0 =
     (let state = ensure_not_paused (pause_flag_exists w k) state0
      in if truthy (failure_reason state) then state
         else
          (let state = state\<lparr>active_node := ''risk_manager''\<rparr>;
               state = state\<lparr>risk_report := risk_manager_evaluate (executor_artifacts state)\<rparr>;
               state = append_message ''risk_manager'' ''Risk checks complete.'' state;
               state = state_log ''Risk manager issued report'' state
           in if risk_status (risk_report state) \<noteq> Some ''pass''
              then state\<lparr>failure_reason := Some ''Risk manager vetoed based on limits.''\<rparr>
              else state))"

definition human_approval_node :: "'g world \<Rightarrow> nat \<Rightarrow> graph_state \<Rightarrow> graph_state" where
  "human_approval_node w k state0 =
     (let state = ensure_not_paused (pause_flag_exists w k) state0
      in if truthy (failure_reason state) then state
         else
          (let state = state\<lparr>active_node := ''human_approval''\<rparr>;
               state = state\<lparr>awaiting_approval := True\<rparr>;
               approval_value = (case approval_file w of
                                   None \<Rightarrow> None
                                 | Some text \<Rightarrow> Some (lower (strip text)))
           in if approval_value = Some ''approve'' then
                (let state = state\<lparr>human_approval := True\<rparr>;
                     state = state\<lparr>awaiting_approval := False\<rparr>;
                     state = append_message ''human'' ''Approved.'' state
                 in state_log ''Human approval granted'' state)
              else if approval_value = Some ''reject'' then
                (let state = state\<lparr>human_approval := False\<rparr>;
                     state = state\<lparr>awaiting_approval := False\<rparr>;
                     state = state\<lparr>failure_reason := Some ''Rejected by human approver.''\<rparr>;
                     state = append_message ''human'' ''Rejected.'' state
                 in state_log ''Human approval rejected'' state)
              else
                (let state = state\<lparr>pause_requested := True\<rparr>
                 in state_log ''Awaiting human approval'' state)))"

definition route_after_critic :: "graph_state \<Rightarrow> string" where
  "route_after_critic state =
     (if pause_requested state then ''paused''
      else if truthy (failure_reason state) then ''fail''
      else if get_or (veto (critic_report state)) True then ''executor''
      else ''risk'')"

definition route_after_risk :: "graph_state \<Rightarrow> string" where
  "route_after_risk state =
     (if pause_requested state then ''paused''
      else if truthy (failure_reason state) then ''fail''
      else ''approval'')"

definition route_after_human :: "graph_state \<Rightarrow> string" where
  "route_after_human state =
     (if pause_requested state then ''paused''
      else if truthy (failure_reason state) then ''fail''
      else if human_approval state then ''done''
      else ''paused'')"

subsection \<open>The compiled graph and the entry point\<close>

lemma truthy_simps [simp]:
  "truthy None = False" "truthy (Some t) = (t \<noteq> [])"
  by (simp_all add: truthy_def)

lemma ensure_not_paused_counts [simp]:
  "retry_count (ensure_not_paused f s) = retry_count s"
  "max_retries (ensure_not_paused f s) = max_retries s"
  "pause_requested (ensure_not_paused f s) = pause_requested s"
  by (simp_all add: ensure_not_paused_def)

lemma executor_node_counts:
  "executor_node w k s = Inr s1 \<Longrightarrow>
   retry_count s1 = retry_count s \<and> max_retries s1 = max_retries s"
  by (auto simp: executor_node_def Let_def state_log_def append_message_def
      split: if_splits sum.splits)

lemma critic_retry_decision_route:
  "veto (critic_report s) \<noteq> None \<Longrightarrow>
   route_after_critic (state_log m (critic_retry_decision s)) = ''executor'' \<Longrightarrow>
   retry_count (critic_retry_decision s) = retry_count s + 1
   \<and> max_retries (critic_retry_decision s) = max_retries s
   \<and> retry_count s < max_retries s"
  by (auto simp: critic_retry_decision_def route_after_critic_def state_log_def Let_def get_or_def
      split: if_splits option.splits)

lemma critic_threshold_check_counts [simp]:
  "retry_count (critic_threshold_check cfg pc s) = retry_count s"
  "max_retries (critic_threshold_check cfg pc s) = max_retries s"
  by (simp_all add: critic_threshold_check_def Let_def)

lemma critic_threshold_check_veto:
  "veto (critic_report s) \<noteq> None \<Longrightarrow>
   veto (critic_report (critic_threshold_check cfg pc s)) \<noteq> None"
  by (auto simp: critic_threshold_check_def Let_def)

lemma critic_evaluate_veto: "\<exists>v. veto (critic_evaluate a) = Some v"
  by (simp add: critic_evaluate_def Let_def)

lemma critic_review_fields:
  "critic_review w s = Inr (pc, s') \<Longrightarrow>
   veto (critic_report s') \<noteq> None \<and> retry_count s' = retry_count s
   \<and> max_retries s' = max_retries s"
  using critic_evaluate_veto[of "executor_artifacts s"]
  by (auto simp: critic_review_def Let_def append_message_def split: sum.splits option.splits)

lemma critic_node_noop:
  "truthy (failure_reason (ensure_not_paused (pause_flag_exists w k) s)) \<Longrightarrow>
   critic_node w cfg k s = Inr (ensure_not_paused (pause_flag_exists w k) s)"
  by (simp add: critic_node_def Let_def)

lemma critic_route_executor:
  assumes "critic_node w cfg k s1 = Inr s2" and "route_after_critic s2 = ''executor''"
  shows "retry_count s2 = retry_count s1 + 1 \<and> max_retries s2 = max_retries s1
       \<and> retry_count s1 < max_retries s1"
proof (cases "truthy (failure_reason (ensure_not_paused (pause_flag_exists w k) s1))")
  case True
  with assms(1) have "s2 = ensure_not_paused (pause_flag_exists w k) s1"
    by (simp add: critic_node_noop)
  with True assms(2) show ?thesis
    by (simp add: route_after_critic_def split: if_splits)
next
  case False
  with assms(1) obtain pc s' where
    rev: "critic_review w (ensure_not_paused (pause_flag_exists w k) s1) = Inr (pc, s')"
    and s2: "s2 = state_log ''Critic issued report''
                    (critic_retry_decision (critic_threshold_check cfg pc s'))"
    by (auto simp: critic_node_def Let_def split: sum.splits)
  from critic_review_fields[OF rev]
  have v: "veto (critic_report (critic_threshold_check cfg pc s')) \<noteq> None"
    and c: "retry_count s' = retry_count s1" "max_retries s' = max_retries s1"
    by (simp_all add: critic_threshold_check_veto)
  from critic_retry_decision_route[OF v] assms(2) s2 c show ?thesis
    by (simp add: state_log_def)
qed

text \<open>
  The edges of \<open>build_graph\<close>. After the risk node, \<open>route_after_risk\<close> leads to the
  approval node or to END; after the approval node every route leads to END.
\<close>

definition risk_stage :: "'g world \<Rightarrow> nat \<Rightarrow> graph_state \<Rightarrow> graph_state" where
  "risk_stage w k state =
     (let state1 = risk_manager_node w k state
      in if route_after_risk state1 = ''approval'' then human_approval_node w (k + 1) state1
         else state1)"

text \<open>
  The executor node, the critic node and the routing after the critic: back to the
  executor, on to the risk node, or to END.
\<close>

function executor_stage :: "'g world \<Rightarrow> settings \<Rightarrow> nat \<Rightarrow> graph_state \<Rightarrow> error + graph_state" where
  "executor_stage w cfg k state =
     (case executor_node w k state of
        Inl e \<Rightarrow> Inl e
      | Inr state1 \<Rightarrow>
       (case critic_node w cfg (k + 1) state1 of
          Inl e \<Rightarrow> Inl e
        | Inr state2 \<Rightarrow>
           (if route_after_critic state2 = ''executor'' then executor_stage w cfg (k + 2) state2
            else if route_after_critic state2 = ''risk'' then Inr (risk_stage w (k + 2) state2)
            else Inr state2)))"
  by pat_completeness auto
termination
proof (relation "measure (\<lambda>(w, cfg, k, s). nat (max_retries s - retry_count s))")
  show "wf (measure (\<lambda>(w, cfg, k, s). nat (max_retries s - retry_count s)))" by simp
next
  fix w :: "'g world" and cfg k state state1 state2
  assume "executor_node w k state = Inr state1"
    and "critic_node w cfg (k + 1) state1 = Inr state2"
    and "route_after_critic state2 = ''executor''"
  then show "((w, cfg, k + 2, state2), (w, cfg, k, state))
        \<in> measure (\<lambda>(w, cfg, k, s). nat (max_retries s - retry_count s))"
    using executor_node_counts critic_route_executor by fastforce
qed

declare executor_stage.simps [simp del]

text \<open>\<open>graph.invoke(state)\<close>: the planner is the entry point, with an edge to the executor.\<close>

definition graph_invoke :: "'g world \<Rightarrow> settings \<Rightarrow> graph_state \<Rightarrow> error + graph_state" where
  "graph_invoke w cfg state = executor_stage w cfg 1 (planner_node w 0 state)"

text \<open>
  \<open>run_graph\<close>. Writing the final state to the decision log does not change it and is
  left out; \<open>raise_on_failure\<close> is the end of the function, from the test of
  \<open>final_state.failure_reason\<close> on.
\<close>

definition raise_on_failure :: "graph_state \<Rightarrow> error + graph_state" where
  "raise_on_failure final_state =
     (if truthy (failure_reason final_state)
      then Inl (RuntimeError (get_or (failure_reason final_state) []))
      else Inr final_state)"

definition initial_state :: "settings \<Rightarrow> string \<Rightarrow> graph_state" where
  "initial_state cfg hyp =
     (let state = GraphState hyp (MAX_RETRIES cfg)
      in append_message ''user'' hyp state)"


section \<open>Concrete surroundings for evaluation\<close>

text \<open>
  A generator that counts its draws, and a world in which no pause flag exists, no
  approval file exists, and the download returns one row.
\<close>

definition counting_rng :: "nat rng_ops" where
  "counting_rng =
     \<lparr>default_rng = (\<lambda>seed. nat seed),
      rng_normal = (\<lambda>g loc scale n. (replicate n (loc + scale * real g), Suc g)),
      rng_integers = (\<lambda>g low high. (low + int g mod (high - low), Suc g))\<rparr>"

definition quiet_world :: "nat world" where
  "quiet_world =
     \<lparr>pause_flag_exists = (\<lambda>k. False),
      approval_file = None,
      yf_download = (\<lambda>k. Inr [PDict [(''close'', PNum 100)]]),
      rsi_signals = (\<lambda>rows. []),
      rsi_last = (\<lambda>rows. 50),
      max_drawdown_of = (\<lambda>rows. 0),
      rng = counting_rng\<rparr>"

section \<open>Names used in the statements\<close>

text \<open>
  The value the risk manager reads for a metric: the entry of \<open>risk_metrics\<close>, 0.0 when
  \<open>risk_metrics\<close> or the entry is missing.
\<close>

definition metric_of :: "artifacts \<Rightarrow> string \<Rightarrow> real" where
  "metric_of arts name = dict_get (get_or (art_risk_metrics arts) []) name 0"

text \<open>Artifacts whose drawdown is 0.25, above the limit 0.2.\<close>

definition drawdown_breach :: artifacts where
  "drawdown_breach =
     empty_artifacts\<lparr>art_risk_metrics := Some [(''max_drawdown'', 25 / 100), (''exposure'', 1)]\<rparr>"

text \<open>
  The artifacts have no value for a metric: \<open>risk_metrics\<close> is missing, or it has no
  entry of that name.
\<close>

definition lacks_metric :: "artifacts \<Rightarrow> string \<Rightarrow> bool" where
  "lacks_metric arts name =
     (case art_risk_metrics arts of None \<Rightarrow> True | Some rm \<Rightarrow> map_of rm name = None)"

text \<open>Artifacts with a drawdown of 0.5 and no exposure entry.\<close>

definition exposure_missing :: artifacts where
  "exposure_missing = empty_artifacts\<lparr>art_risk_metrics := Some [(''max_drawdown'', 1 / 2)]\<rparr>"

text \<open>
  Data frames as lists of numbers, for evaluating \<open>consistency_check\<close>: a frame is
  empty when the list is, and a scenario shifts every number by the generator's count.
\<close>

definition list_frames :: "(real list, nat) frame_ops" where
  "list_frames = \<lparr>df_empty = (\<lambda>df. df = []), perturb_frame = (\<lambda>config g df. (map (\<lambda>x. x + real g) df, Suc g))\<rparr>"

text \<open>
  The consistency report the critic node obtains on its stubbed inputs, and the state
  after lines 63 to 81 of \<open>critic_node\<close> with that report.
\<close>

definition stub_consistency :: consistency_report where
  "stub_consistency = \<lparr>cons_prediction_consistency = Some 0, cons_flagged = None,
      cons_reason = None, cons_threshold = None\<rparr>"

definition reviewed :: "graph_state \<Rightarrow> graph_state" where
  "reviewed s = s\<lparr>active_node := ''critic'',
      critic_report := (critic_evaluate (executor_artifacts s))\<lparr>counterfactual := Some stub_consistency\<rparr>,
      confidence := get_or (crit_confidence (critic_evaluate (executor_artifacts s))) 0,
      critique_score := get_or (crit_critique_score (critic_evaluate (executor_artifacts s)))
                          (get_or (crit_confidence (critic_evaluate (executor_artifacts s))) 0),
      messages := messages s @ [\<lparr>role = ''critic'', content = ''Critic review complete.''\<rparr>]\<rparr>"






text \<open>How often the executor node has run its body: it logs this line each time.\<close>

definition executor_runs :: "graph_state \<Rightarrow> nat" where
  "executor_runs s = count_list (logs s) ''Executor produced analysis artifacts''"

text \<open>Every download returns at least one row; and the pause flag never exists.\<close>

definition downloads_succeed :: "'g world \<Rightarrow> bool" where
  "downloads_succeed w = (\<forall>k. case yf_download w k of Inl exc \<Rightarrow> False | Inr rows \<Rightarrow> rows \<noteq> [])"

definition never_paused :: "'g world \<Rightarrow> bool" where
  "never_paused w = (\<forall>k. \<not> pause_flag_exists w k)"

text \<open>
  The state the critic node returns when its body runs: the review, the threshold check
  with the stub's score 0.0, the retry decision and the last log line.
\<close>

definition critic_decided :: "settings \<Rightarrow> graph_state \<Rightarrow> graph_state" where
  "critic_decided cfg s =
     state_log ''Critic issued report''
       (critic_retry_decision (critic_threshold_check cfg 0 (reviewed s)))"

text \<open>The default settings with \<open>MAX_RETRIES = 0\<close>.\<close>

definition no_retries :: settings where
  "no_retries = default_settings\<lparr>MAX_RETRIES := 0\<rparr>"

section \<open>Properties of the consistency score\<close>

lemma sum_list_indicator_zip:
  "length cf = length baseline \<Longrightarrow>
   sum_list (map (\<lambda>(c, b). if sgn c = sgn b then 1 else 0) (zip cf baseline)) =
   real (length (filter (\<lambda>i. sgn (cf ! i) = sgn (baseline ! i)) [0..<length baseline]))"
proof (induction cf baseline rule: list_induct2)
  case Nil
  then show ?case by simp
next
  case (Cons c cf b baseline)
  have shift: "filter (\<lambda>i. sgn ((c # cf) ! i) = sgn ((b # baseline) ! i)) (map Suc [0..<length baseline])
             = map Suc (filter (\<lambda>i. sgn (cf ! i) = sgn (baseline ! i)) [0..<length baseline])"
    by (simp add: filter_map comp_def)
  have "[0..<length (b # baseline)] = 0 # map Suc [0..<length baseline]"
    by (simp add: upt_conv_Cons map_Suc_upt del: upt_Suc)
  then show ?case
    using Cons.IH shift by simp
qed

lemma scenario_match_spec: "scenario_match baseline cf = spec_match_fraction baseline cf"
  by (simp add: scenario_match_def spec_match_fraction_def sign_eq_mean_def np_mean_def
      sum_list_indicator_zip)

lemma spec_match_fraction_bounds:
  "0 \<le> spec_match_fraction baseline cf \<and> spec_match_fraction baseline cf \<le> 1"
proof (cases "length cf = length baseline \<and> baseline \<noteq> []")
  case True
  have "length (filter (\<lambda>i. sgn (cf ! i) = sgn (baseline ! i)) [0..<length baseline])
        \<le> length [0..<length baseline]"
    by (rule length_filter_le)
  then have "real (length (filter (\<lambda>i. sgn (cf ! i) = sgn (baseline ! i)) [0..<length baseline]))
        \<le> real (length baseline)"
    by simp
  with True show ?thesis
    by (simp add: spec_match_fraction_def divide_le_eq)
next
  case False
  then show ?thesis
    by (auto simp: spec_match_fraction_def)
qed

lemma length_filter_all:
  "length (filter P xs) = length xs \<longleftrightarrow> (\<forall>x \<in> set xs. P x)"
proof (induction xs)
  case Nil
  then show ?case by simp
next
  case (Cons a xs)
  have le: "length (filter P xs) \<le> length xs"
    by (rule length_filter_le)
  show ?case
  proof (cases "P a")
    case True
    with Cons show ?thesis by simp
  next
    case False
    from le have "length (filter P xs) \<noteq> Suc (length xs)" by linarith
    with False show ?thesis by simp
  qed
qed

lemma filter_upt_full:
  "length (filter P [0..<n]) = n \<longleftrightarrow> (\<forall>i<n. P i)"
  using length_filter_all[of P "[0..<n]"] by auto

lemma spec_match_fraction_one:
  "baseline \<noteq> [] \<Longrightarrow>
   spec_match_fraction baseline cf = 1 \<longleftrightarrow> map sgn cf = map sgn baseline"
proof -
  assume ne: "baseline \<noteq> []"
  show ?thesis
  proof (cases "length cf = length baseline")
    case True
    have "spec_match_fraction baseline cf = 1 \<longleftrightarrow>
          length (filter (\<lambda>i. sgn (cf ! i) = sgn (baseline ! i)) [0..<length baseline]) = length baseline"
      using True ne by (auto simp: spec_match_fraction_def)
    also have "\<dots> \<longleftrightarrow> (\<forall>i<length baseline. sgn (cf ! i) = sgn (baseline ! i))"
      by (rule filter_upt_full)
    also have "\<dots> \<longleftrightarrow> map sgn cf = map sgn baseline"
      using True by (auto simp: list_eq_iff_nth_eq)
    finally show ?thesis .
  next
    case False
    then have "map sgn cf \<noteq> map sgn baseline"
      by (metis length_map)
    with False show ?thesis
      by (simp add: spec_match_fraction_def)
  qed
qed

lemma sum_list_bounds:
  "(\<forall>x \<in> set xs. 0 \<le> f x \<and> f x \<le> (1::real)) \<Longrightarrow>
   0 \<le> sum_list (map f xs) \<and> sum_list (map f xs) \<le> real (length xs)"
  by (induction xs) auto

lemma sum_list_full:
  "(\<forall>x \<in> set xs. 0 \<le> f x \<and> f x \<le> (1::real)) \<Longrightarrow>
   sum_list (map f xs) = real (length xs) \<longleftrightarrow> (\<forall>x \<in> set xs. f x = 1)"
proof (induction xs)
  case Nil
  then show ?case by simp
next
  case (Cons a xs)
  then have b: "0 \<le> f a" "f a \<le> 1"
    and r: "0 \<le> sum_list (map f xs)" "sum_list (map f xs) \<le> real (length xs)"
    using sum_list_bounds[of xs f] by auto
  from Cons have ih: "sum_list (map f xs) = real (length xs) \<longleftrightarrow> (\<forall>x \<in> set xs. f x = 1)"
    by simp
  show ?case
  proof
    assume "sum_list (map f (a # xs)) = real (length (a # xs))"
    then have "f a + sum_list (map f xs) = 1 + real (length xs)" by simp
    with b r have "f a = 1" "sum_list (map f xs) = real (length xs)" by linarith+
    with ih show "\<forall>x \<in> set (a # xs). f x = 1" by simp
  next
    assume "\<forall>x \<in> set (a # xs). f x = 1"
    with ih show "sum_list (map f (a # xs)) = real (length (a # xs))" by simp
  qed
qed

text \<open>
  Claim C5. For a non-empty baseline and a non-empty list of counterfactual prediction
  vectors, \<open>prediction_consistency\<close> is the arithmetic mean over the scenarios of the
  fraction of positions whose sign agrees with the baseline; a scenario of another length
  contributes exactly 0; the score lies in [0,1]; and it is 1 exactly when the sign vector
  of every scenario equals the sign vector of the baseline.
\<close>

theorem prediction_consistency_mean:
  assumes "baseline \<noteq> []" and "cfs \<noteq> []"
  shows "prediction_consistency baseline cfs = spec_consistency baseline cfs
       \<and> (\<forall>cf \<in> set cfs. length cf \<noteq> length baseline \<longrightarrow> scenario_match baseline cf = 0)
       \<and> 0 \<le> prediction_consistency baseline cfs
       \<and> prediction_consistency baseline cfs \<le> 1
       \<and> (prediction_consistency baseline cfs = 1
            \<longleftrightarrow> (\<forall>cf \<in> set cfs. map sgn cf = map sgn baseline))"
proof -
  let ?f = "spec_match_fraction baseline"
  have pc: "prediction_consistency baseline cfs = sum_list (map ?f cfs) / real (length cfs)"
    using assms
    by (simp add: prediction_consistency_def np_mean_def scenario_match_spec[abs_def])
  have bnd: "\<forall>cf \<in> set cfs. 0 \<le> ?f cf \<and> ?f cf \<le> 1"
    using spec_match_fraction_bounds by blast
  have len: "0 < real (length cfs)"
    using assms(2) by simp
  from sum_list_bounds[OF bnd]
  have s: "0 \<le> sum_list (map ?f cfs)" "sum_list (map ?f cfs) \<le> real (length cfs)"
    by simp_all
  have one: "sum_list (map ?f cfs) / real (length cfs) = 1
             \<longleftrightarrow> sum_list (map ?f cfs) = real (length cfs)"
    using len by (simp add: divide_eq_eq)
  have "prediction_consistency baseline cfs = 1 \<longleftrightarrow> (\<forall>cf \<in> set cfs. ?f cf = 1)"
    using pc one sum_list_full[OF bnd] by simp
  then have iff: "prediction_consistency baseline cfs = 1
                  \<longleftrightarrow> (\<forall>cf \<in> set cfs. map sgn cf = map sgn baseline)"
    using spec_match_fraction_one[OF assms(1)] by simp
  have lo: "0 \<le> prediction_consistency baseline cfs"
    using pc s(1) len by simp
  have hi: "prediction_consistency baseline cfs \<le> 1"
    using pc s(2) len by (simp add: divide_le_eq)
  have mis: "\<forall>cf \<in> set cfs. length cf \<noteq> length baseline \<longrightarrow> scenario_match baseline cf = 0"
    by (simp add: scenario_match_def)
  show ?thesis
    using pc lo hi iff mis by (simp add: spec_consistency_def)
qed

theorem prediction_consistency_mean_witness:
  "prediction_consistency [1, -2] [[3, -1], [1, 1], [5]] = 1 / 2
   \<and> spec_consistency [1, -2] [[3, -1], [1, 1], [5]] = 1 / 2
   \<and> scenario_match [1, -2] [5] = 0
   \<and> prediction_consistency [1, -2] [[3, -1], [1, 1], [5]] \<noteq> 1"
proof -
  have v: "prediction_consistency [1, -2] [[3, -1], [1, 1], [5]] = 1 / 2"
    by (simp add: prediction_consistency_def np_mean_def scenario_match_def sign_eq_mean_def)
  from prediction_consistency_mean[of "[1, -2]" "[[3, -1], [1, 1], [5]]"] v
  show ?thesis by simp
qed

section \<open>The risk manager\<close>

lemma risk_manager_evaluate_report:
  "risk_manager_evaluate arts =
     \<lparr>risk_status = Some (if metric_of arts ''max_drawdown'' > 2 / 10 \<or> metric_of arts ''exposure'' > 1
                         then ''fail'' else ''pass''),
      risk_violations = Some ((if metric_of arts ''max_drawdown'' > 2 / 10 then [''max_drawdown''] else [])
                              @ (if metric_of arts ''exposure'' > 1 then [''exposure''] else [])),
      risk_metrics = Some [(''max_drawdown'', metric_of arts ''max_drawdown''),
                           (''exposure'', metric_of arts ''exposure'')],
      risk_limits = Some [(''max_drawdown'', 2 / 10), (''exposure'', 1)]\<rparr>"
  by (simp add: risk_manager_evaluate_def metric_of_def Let_def dict_get_def)

lemma risk_manager_node_run:
  assumes "\<not> pause_requested s" "\<not> pause_flag_exists w k" "\<not> truthy (failure_reason s)"
  shows "risk_manager_node w k s =
     (let s1 = state_log ''Risk manager issued report''
                (append_message ''risk_manager'' ''Risk checks complete.''
                  (s\<lparr>active_node := ''risk_manager'',
                     risk_report := risk_manager_evaluate (executor_artifacts s)\<rparr>))
      in if risk_status (risk_manager_evaluate (executor_artifacts s)) \<noteq> Some ''pass''
         then s1\<lparr>failure_reason := Some ''Risk manager vetoed based on limits.''\<rparr> else s1)"
  using assms
  by (simp add: risk_manager_node_def ensure_not_paused_def Let_def state_log_def append_message_def)

text \<open>
  Claim C8. For every artifacts mapping the risk manager's status is \<open>fail\<close> exactly
  when the drawdown it reads exceeds 0.2 or the exposure it reads exceeds 1.0 (and
  \<open>pass\<close> otherwise), and \<open>violations\<close> lists the violated metrics by name, in that
  order. When the risk node runs (no pause, no earlier failure) and the status is not
  \<open>pass\<close>, it sets \<open>failure_reason\<close> to "Risk manager vetoed based on limits.", the route is
  \<open>fail\<close>, the approval node is not entered and the entry point raises with that reason.
\<close>

theorem risk_manager_fail_iff_limit_exceeded:
  "(risk_status (risk_manager_evaluate arts) = Some ''fail''
      \<longleftrightarrow> metric_of arts ''max_drawdown'' > 2 / 10 \<or> metric_of arts ''exposure'' > 1)
   \<and> (risk_status (risk_manager_evaluate arts) = Some ''pass''
      \<longleftrightarrow> \<not> (metric_of arts ''max_drawdown'' > 2 / 10 \<or> metric_of arts ''exposure'' > 1))
   \<and> risk_violations (risk_manager_evaluate arts) =
        Some ((if metric_of arts ''max_drawdown'' > 2 / 10 then [''max_drawdown''] else [])
              @ (if metric_of arts ''exposure'' > 1 then [''exposure''] else []))
   \<and> (\<not> pause_requested s \<and> \<not> pause_flag_exists w k \<and> \<not> truthy (failure_reason s)
       \<and> risk_status (risk_manager_evaluate (executor_artifacts s)) \<noteq> Some ''pass''
      \<longrightarrow> risk_report (risk_manager_node w k s) = risk_manager_evaluate (executor_artifacts s)
        \<and> failure_reason (risk_manager_node w k s) = Some ''Risk manager vetoed based on limits.''
        \<and> route_after_risk (risk_manager_node w k s) = ''fail''
        \<and> risk_stage w k s = risk_manager_node w k s
        \<and> raise_on_failure (risk_stage w k s)
            = Inl (RuntimeError ''Risk manager vetoed based on limits.''))"
proof -
  have a: "risk_status (risk_manager_evaluate arts) = Some ''fail''
      \<longleftrightarrow> metric_of arts ''max_drawdown'' > 2 / 10 \<or> metric_of arts ''exposure'' > 1"
    by (simp add: risk_manager_evaluate_report)
  have b: "risk_status (risk_manager_evaluate arts) = Some ''pass''
      \<longleftrightarrow> \<not> (metric_of arts ''max_drawdown'' > 2 / 10 \<or> metric_of arts ''exposure'' > 1)"
    by (simp add: risk_manager_evaluate_report)
  have c: "risk_violations (risk_manager_evaluate arts) =
        Some ((if metric_of arts ''max_drawdown'' > 2 / 10 then [''max_drawdown''] else [])
              @ (if metric_of arts ''exposure'' > 1 then [''exposure''] else []))"
    by (simp add: risk_manager_evaluate_report)
  have d: "risk_report (risk_manager_node w k s) = risk_manager_evaluate (executor_artifacts s)
        \<and> failure_reason (risk_manager_node w k s) = Some ''Risk manager vetoed based on limits.''
        \<and> route_after_risk (risk_manager_node w k s) = ''fail''
        \<and> risk_stage w k s = risk_manager_node w k s
        \<and> raise_on_failure (risk_stage w k s)
            = Inl (RuntimeError ''Risk manager vetoed based on limits.'')"
    if h: "\<not> pause_requested s" "\<not> pause_flag_exists w k" "\<not> truthy (failure_reason s)"
      "risk_status (risk_manager_evaluate (executor_artifacts s)) \<noteq> Some ''pass''"
  proof -
    have n: "risk_manager_node w k s =
        (state_log ''Risk manager issued report''
                (append_message ''risk_manager'' ''Risk checks complete.''
                  (s\<lparr>active_node := ''risk_manager'',
                     risk_report := risk_manager_evaluate (executor_artifacts s)\<rparr>)))
          \<lparr>failure_reason := Some ''Risk manager vetoed based on limits.''\<rparr>"
      using risk_manager_node_run[OF h(1,2,3)] h(4) by (simp add: Let_def)
    have r: "route_after_risk (risk_manager_node w k s) = ''fail''"
      using h(1) by (simp add: n route_after_risk_def state_log_def append_message_def truthy_def)
    show ?thesis
      using r by (simp add: risk_stage_def Let_def raise_on_failure_def)
         (simp add: n state_log_def append_message_def truthy_def get_or_def)
  qed
  from a b c d show ?thesis by blast
qed

theorem risk_manager_fail_iff_limit_exceeded_witness:
  "risk_status (risk_manager_evaluate drawdown_breach) = Some ''fail''
   \<and> risk_violations (risk_manager_evaluate drawdown_breach) = Some [''max_drawdown'']
   \<and> failure_reason (risk_manager_node quiet_world 3
        ((initial_state default_settings ''H'')\<lparr>executor_artifacts := drawdown_breach\<rparr>))
      = Some ''Risk manager vetoed based on limits.''
   \<and> raise_on_failure (risk_stage quiet_world 3
        ((initial_state default_settings ''H'')\<lparr>executor_artifacts := drawdown_breach\<rparr>))
      = Inl (RuntimeError ''Risk manager vetoed based on limits.'')"
proof -
  let ?s = "(initial_state default_settings ''H'')\<lparr>executor_artifacts := drawdown_breach\<rparr>"
  have m: "metric_of drawdown_breach ''max_drawdown'' > 2 / 10"
       "\<not> metric_of drawdown_breach ''exposure'' > 1"
    by (simp_all add: metric_of_def drawdown_breach_def dict_get_def get_or_def)
  have h: "\<not> pause_requested ?s" "\<not> pause_flag_exists quiet_world 3"
     "\<not> truthy (failure_reason ?s)"
    by (simp_all add: initial_state_def GraphState_def append_message_def quiet_world_def truthy_def Let_def)
  have ea: "executor_artifacts ?s = drawdown_breach"
    by simp
  note t = risk_manager_fail_iff_limit_exceeded[of drawdown_breach ?s quiet_world 3]
  from t m have st: "risk_status (risk_manager_evaluate drawdown_breach) = Some ''fail''"
    by blast
  then have np: "risk_status (risk_manager_evaluate (executor_artifacts ?s)) \<noteq> Some ''pass''"
    unfolding ea by simp
  from t m have vi: "risk_violations (risk_manager_evaluate drawdown_breach) = Some [''max_drawdown'']"
    by simp
  from t h np have "failure_reason (risk_manager_node quiet_world 3 ?s)
        = Some ''Risk manager vetoed based on limits.''
      \<and> raise_on_failure (risk_stage quiet_world 3 ?s)
        = Inl (RuntimeError ''Risk manager vetoed based on limits.'')"
    by blast
  with st vi show ?thesis by blast
qed

lemma lacks_metric_zero: "lacks_metric arts name \<Longrightarrow> metric_of arts name = 0"
  by (simp add: lacks_metric_def metric_of_def dict_get_def get_or_def split: option.splits)

text \<open>
  Claim C10, as stated, fails: artifacts whose \<open>risk_metrics\<close> has a drawdown of 0.5 and
  no exposure entry lack a metric, and the status is \<open>fail\<close>.
\<close>

theorem missing_exposure_counterexample:
  "lacks_metric exposure_missing ''exposure''
   \<and> risk_status (risk_manager_evaluate exposure_missing) = Some ''fail''
   \<and> risk_violations (risk_manager_evaluate exposure_missing) = Some [''max_drawdown'']"
  by (simp add: risk_manager_evaluate_report metric_of_def lacks_metric_def exposure_missing_def
      dict_get_def get_or_def)

text \<open>
  Claim C10, amended. A missing metric is read as 0.0, is reported as 0.0 and is never
  listed in \<open>violations\<close>, which then depends on the other metric alone. When both
  metrics are missing (in particular when \<open>risk_metrics\<close> is missing) the status is
  \<open>pass\<close> and \<open>violations\<close> is empty.
\<close>

theorem missing_metric_reads_zero:
  "(lacks_metric arts ''max_drawdown'' \<longrightarrow>
      risk_metrics (risk_manager_evaluate arts)
        = Some [(''max_drawdown'', 0), (''exposure'', metric_of arts ''exposure'')]
      \<and> risk_violations (risk_manager_evaluate arts)
        = Some (if metric_of arts ''exposure'' > 1 then [''exposure''] else []))
   \<and> (lacks_metric arts ''exposure'' \<longrightarrow>
      risk_metrics (risk_manager_evaluate arts)
        = Some [(''max_drawdown'', metric_of arts ''max_drawdown''), (''exposure'', 0)]
      \<and> risk_violations (risk_manager_evaluate arts)
        = Some (if metric_of arts ''max_drawdown'' > 2 / 10 then [''max_drawdown''] else []))
   \<and> (lacks_metric arts ''max_drawdown'' \<and> lacks_metric arts ''exposure'' \<longrightarrow>
      risk_status (risk_manager_evaluate arts) = Some ''pass''
      \<and> risk_violations (risk_manager_evaluate arts) = Some [])"
  by (auto simp: risk_manager_evaluate_report dest!: lacks_metric_zero)

theorem missing_metric_reads_zero_witness:
  "lacks_metric empty_artifacts ''max_drawdown'' \<and> lacks_metric empty_artifacts ''exposure''
   \<and> risk_status (risk_manager_evaluate empty_artifacts) = Some ''pass''
   \<and> risk_violations (risk_manager_evaluate empty_artifacts) = Some []
   \<and> risk_metrics (risk_manager_evaluate empty_artifacts)
        = Some [(''max_drawdown'', 0), (''exposure'', 0)]"
proof -
  have l: "lacks_metric empty_artifacts ''max_drawdown''" "lacks_metric empty_artifacts ''exposure''"
    by (simp_all add: lacks_metric_def empty_artifacts_def)
  from missing_metric_reads_zero[of empty_artifacts] l
  have "risk_status (risk_manager_evaluate empty_artifacts) = Some ''pass''
      \<and> risk_violations (risk_manager_evaluate empty_artifacts) = Some []
      \<and> risk_metrics (risk_manager_evaluate empty_artifacts)
        = Some [(''max_drawdown'', 0), (''exposure'', metric_of empty_artifacts ''exposure'')]"
    by blast
  with l lacks_metric_zero[OF l(2)] show ?thesis by simp
qed

section \<open>The consistency report on empty inputs\<close>

text \<open>
  Claim C4, as stated, fails: the report of \<open>build_consistency_report\<close>, the scorer the
  critic node calls, has the score 0.0 for an empty baseline but neither a \<open>flagged\<close> nor
  a \<open>reason\<close> entry.
\<close>

theorem critic_scorer_report_counterexample:
  "cons_prediction_consistency (build_consistency_report [] [[1]]) = Some 0
   \<and> cons_flagged (build_consistency_report [] [[1]]) = None
   \<and> cons_reason (build_consistency_report [] [[1]]) = None"
  by (simp add: build_consistency_report_def prediction_consistency_def)

text \<open>
  Claim C4, amended. For an empty baseline or an empty list of scenarios,
  \<open>build_consistency_report\<close> returns the report whose only entry is the score 0.0; and
  \<open>consistency_check\<close> of the validator, for an empty list of scenarios or an empty
  baseline prediction, returns the score 0.0, \<open>flagged\<close> true and a reason.
\<close>

theorem empty_inputs_score_zero:
  "(baseline = [] \<or> cfs = [] \<longrightarrow>
      build_consistency_report baseline cfs =
        \<lparr>cons_prediction_consistency = Some 0, cons_flagged = None, cons_reason = None,
         cons_threshold = None\<rparr>)
   \<and> (perturb_data fops ops config df 7 = [] \<or> extract_recommendation (executor df) = [] \<longrightarrow>
      cons_prediction_consistency (consistency_check fops ops config executor df) = Some 0
      \<and> cons_flagged (consistency_check fops ops config executor df) = Some True
      \<and> cons_reason (consistency_check fops ops config executor df) \<noteq> None)"
  by (auto simp: build_consistency_report_def prediction_consistency_def consistency_check_def Let_def)

theorem empty_inputs_score_zero_witness:
  "build_consistency_report [] [[1]] =
        \<lparr>cons_prediction_consistency = Some 0, cons_flagged = None, cons_reason = None,
         cons_threshold = None\<rparr>
   \<and> perturb_data list_frames counting_rng default_factfin_config [] 7 = []
   \<and> cons_prediction_consistency (consistency_check list_frames counting_rng default_factfin_config
        (\<lambda>df. \<lparr>prediction = Some df, signal = None, recommendation = None\<rparr>) []) = Some 0
   \<and> cons_flagged (consistency_check list_frames counting_rng default_factfin_config
        (\<lambda>df. \<lparr>prediction = Some df, signal = None, recommendation = None\<rparr>) []) = Some True
   \<and> cons_reason (consistency_check list_frames counting_rng default_factfin_config
        (\<lambda>df. \<lparr>prediction = Some df, signal = None, recommendation = None\<rparr>) []) = Some ''empty data''"
proof -
  have p: "perturb_data list_frames counting_rng default_factfin_config [] 7 = []"
    by (simp add: perturb_data_def list_frames_def)
  have r: "cons_reason (consistency_check list_frames counting_rng default_factfin_config
        (\<lambda>df. \<lparr>prediction = Some df, signal = None, recommendation = None\<rparr>) []) = Some ''empty data''"
    by (simp add: consistency_check_def p)
  from empty_inputs_score_zero[of "[]" "[[1]]" list_frames counting_rng default_factfin_config "[]"
      "\<lambda>df. \<lparr>prediction = Some df, signal = None, recommendation = None\<rparr>"] p r
  show ?thesis by simp
qed

section \<open>The critic node on its stubbed inputs\<close>

lemma counterfactual_loop_length:
  "0 \<le> price_noise_std c \<Longrightarrow> 0 \<le> earnings_shift_days c \<Longrightarrow>
   \<exists>res. counterfactual_loop ops c p e st g idx acc = Inr res
        \<and> length res = length acc + length idx"
proof (induction idx arbitrary: g acc)
  case Nil
  then show ?case by simp
next
  case (Cons i idx)
  obtain noise g1 where n: "rng_normal ops g 0 (price_noise_std c) (length p) = (noise, g1)"
    by (cases "rng_normal ops g 0 (price_noise_std c) (length p)")
  obtain shift g2 where s: "rng_integers ops g1 (- earnings_shift_days c) (earnings_shift_days c + 1) = (shift, g2)"
    by (cases "rng_integers ops g1 (- earnings_shift_days c) (earnings_shift_days c + 1)")
  from Cons.IH[OF Cons.prems, of g2
      "acc @ [\<lparr>sc_prices = map (\<lambda>(p, z). p + z) (zip p noise),
               sc_earnings_dates = shift_earnings_dates e shift,
               sc_sentiment = map uminus st, scenario_id = i\<rparr>]"]
  show ?case
    using Cons.prems n s by (simp add: normal_def integers_def Let_def)
qed

lemma generate_counterfactuals_default:
  "\<exists>cfs. generate_counterfactuals ops empty_dataset default_counterfactual_config seed = Inr cfs
         \<and> length cfs = 50"
proof -
  have "\<exists>res. counterfactual_loop ops default_counterfactual_config [] [] [] (default_rng ops seed)
           (py_range 50) [] = Inr res \<and> length res = length ([] :: scenario list) + length (py_range 50)"
    by (rule counterfactual_loop_length) (simp_all add: default_counterfactual_config_def)
  then show ?thesis
    by (simp add: generate_counterfactuals_def Let_def empty_dataset_def get_or_def py_range_def
        default_counterfactual_config_def)
qed

lemma prediction_consistency_stub:
  "prediction_consistency b (map (\<lambda>_. []) cfs) = 0"
proof (cases "b = [] \<or> cfs = []")
  case True
  then show ?thesis by (auto simp: prediction_consistency_def)
next
  case False
  then have "map (scenario_match b) (map (\<lambda>_. []) cfs) = map (\<lambda>_. 0) cfs"
    by (simp add: scenario_match_def)
  then have "sum_list (map (scenario_match b) (map (\<lambda>_. []) cfs)) = 0"
    by (simp del: map_map)
  with False show ?thesis
    by (simp add: prediction_consistency_def np_mean_def del: map_map)
qed

lemma critic_review_eq: "critic_review w s = Inr (0, reviewed s)"
proof -
  obtain cfs where g: "generate_counterfactuals (rng w) empty_dataset default_counterfactual_config 7 = Inr cfs"
    using generate_counterfactuals_default by blast
  have pc: "prediction_consistency (get_or (art_predictions (executor_artifacts s)) [])
               (map (\<lambda>_. []) cfs) = 0"
    by (rule prediction_consistency_stub)
  show ?thesis
    by (simp add: critic_review_def Let_def g build_consistency_report_def to_array_def comp_def pc
        reviewed_def stub_consistency_def append_message_def)
qed

section \<open>The pause check and the failure reason\<close>

lemma ensure_not_paused_fields [simp]:
  "critic_report (ensure_not_paused f s) = critic_report s"
  "risk_report (ensure_not_paused f s) = risk_report s"
  "compliance_report (ensure_not_paused f s) = compliance_report s"
  "plan (ensure_not_paused f s) = plan s"
  "messages (ensure_not_paused f s) = messages s"
  "executor_artifacts (ensure_not_paused f s) = executor_artifacts s"
  "active_node (ensure_not_paused f s) = active_node s"
  "logs (ensure_not_paused f s) = logs s"
  "awaiting_approval (ensure_not_paused f s) = awaiting_approval s"
  "human_approval (ensure_not_paused f s) = human_approval s"
  by (simp_all add: ensure_not_paused_def)

lemma ensure_not_paused_failure:
  "failure_reason (ensure_not_paused f s) =
     (if pause_requested s \<or> f then Some ''Paused by operator.'' else failure_reason s)"
  by (simp add: ensure_not_paused_def)


lemma ensure_not_paused_id:
  "\<not> pause_requested s \<Longrightarrow> \<not> f \<Longrightarrow> ensure_not_paused f s = s"
  by (simp add: ensure_not_paused_def)





text \<open>No node assigns \<open>None\<close> to \<open>failure_reason\<close>.\<close>

lemma ensure_not_paused_keeps:
  "failure_reason s \<noteq> None \<Longrightarrow> failure_reason (ensure_not_paused f s) \<noteq> None"
  by (simp add: ensure_not_paused_failure)



lemma critic_tail_keeps:
  "failure_reason s \<noteq> None \<Longrightarrow>
   failure_reason (state_log m (critic_retry_decision (critic_threshold_check cfg pc s))) \<noteq> None"
  by (simp add: state_log_def critic_retry_decision_def critic_threshold_check_def Let_def)







section \<open>A pause signal before the planner\<close>









section \<open>What the nodes change\<close>

lemma critic_node_run:
  "\<not> truthy (failure_reason (ensure_not_paused (pause_flag_exists w k) s)) \<Longrightarrow>
   critic_node w cfg k s = Inr (critic_decided cfg (ensure_not_paused (pause_flag_exists w k) s))"
  by (simp add: critic_node_def Let_def critic_review_eq critic_decided_def)

lemma critic_node_cases:
  "critic_node w cfg k s =
     Inr (if truthy (failure_reason (ensure_not_paused (pause_flag_exists w k) s))
          then ensure_not_paused (pause_flag_exists w k) s
          else critic_decided cfg (ensure_not_paused (pause_flag_exists w k) s))"
  by (simp add: critic_node_noop critic_node_run)

lemma reviewed_fields [simp]:
  "retry_count (reviewed s) = retry_count s"
  "max_retries (reviewed s) = max_retries s"
  "failure_reason (reviewed s) = failure_reason s"
  "pause_requested (reviewed s) = pause_requested s"
  "risk_report (reviewed s) = risk_report s"
  "awaiting_approval (reviewed s) = awaiting_approval s"
  "human_approval (reviewed s) = human_approval s"
  "logs (reviewed s) = logs s"
  "active_node (reviewed s) = ''critic''"
  by (simp_all add: reviewed_def)

lemma critic_threshold_check_fields [simp]:
  "failure_reason (critic_threshold_check cfg pc s) = failure_reason s"
  "pause_requested (critic_threshold_check cfg pc s) = pause_requested s"
  "risk_report (critic_threshold_check cfg pc s) = risk_report s"
  "awaiting_approval (critic_threshold_check cfg pc s) = awaiting_approval s"
  "human_approval (critic_threshold_check cfg pc s) = human_approval s"
  "logs (critic_threshold_check cfg pc s) = logs s"
  "active_node (critic_threshold_check cfg pc s) = active_node s"
  by (simp_all add: critic_threshold_check_def Let_def)

lemma critic_threshold_check_forces:
  "pc < PC_THRESHOLD cfg \<Longrightarrow> veto (critic_report (critic_threshold_check cfg pc s)) = Some True"
  by (simp add: critic_threshold_check_def Let_def)

lemma critic_retry_decision_report [simp]:
  "critic_report (critic_retry_decision s) = critic_report s"
  "pause_requested (critic_retry_decision s) = pause_requested s"
  "risk_report (critic_retry_decision s) = risk_report s"
  "awaiting_approval (critic_retry_decision s) = awaiting_approval s"
  "human_approval (critic_retry_decision s) = human_approval s"
  "max_retries (critic_retry_decision s) = max_retries s"
  "active_node (critic_retry_decision s) = active_node s"
  by (simp_all add: critic_retry_decision_def Let_def state_log_def)

lemma state_log_fields [simp]:
  "critic_report (state_log m s) = critic_report s"
  "risk_report (state_log m s) = risk_report s"
  "compliance_report (state_log m s) = compliance_report s"
  "pause_requested (state_log m s) = pause_requested s"
  "failure_reason (state_log m s) = failure_reason s"
  "retry_count (state_log m s) = retry_count s"
  "max_retries (state_log m s) = max_retries s"
  "awaiting_approval (state_log m s) = awaiting_approval s"
  "human_approval (state_log m s) = human_approval s"
  "active_node (state_log m s) = active_node s"
  "logs (state_log m s) = logs s @ [m]"
  by (simp_all add: state_log_def)

text \<open>The retry decision on a report whose veto is true.\<close>

lemma critic_retry_decision_veto:
  "veto (critic_report s) = Some True \<Longrightarrow>
   critic_retry_decision s =
     (if retry_count s < max_retries s
      then state_log ''Critic vetoed; retrying executor'' (s\<lparr>retry_count := retry_count s + 1\<rparr>)
      else s\<lparr>failure_reason := Some ''Max retries exceeded after critic veto.''\<rparr>)"
  by (simp add: critic_retry_decision_def get_or_def Let_def)

lemma critic_decided_report [simp]:
  "critic_report (critic_decided cfg s) = critic_report (critic_threshold_check cfg 0 (reviewed s))"
  "pause_requested (critic_decided cfg s) = pause_requested s"
  "risk_report (critic_decided cfg s) = risk_report s"
  "awaiting_approval (critic_decided cfg s) = awaiting_approval s"
  "human_approval (critic_decided cfg s) = human_approval s"
  "max_retries (critic_decided cfg s) = max_retries s"
  "active_node (critic_decided cfg s) = ''critic''"
  by (simp_all add: critic_decided_def)

lemma critic_decided_veto:
  assumes "veto (critic_report (critic_decided cfg s)) = Some True"
  shows "retry_count s < max_retries s \<Longrightarrow>
           retry_count (critic_decided cfg s) = retry_count s + 1
           \<and> failure_reason (critic_decided cfg s) = failure_reason s"
    and "\<not> retry_count s < max_retries s \<Longrightarrow>
           retry_count (critic_decided cfg s) = retry_count s
           \<and> failure_reason (critic_decided cfg s) = Some ''Max retries exceeded after critic veto.''"
  using assms
  by (simp_all add: critic_decided_def critic_retry_decision_veto)

lemma critic_decided_forced:
  "0 < PC_THRESHOLD cfg \<Longrightarrow> veto (critic_report (critic_decided cfg s)) = Some True"
  by (simp add: critic_threshold_check_forces)

lemma executor_node_fields:
  assumes "executor_node w k s = Inr s1"
  shows "pause_requested s1 = pause_requested s" "risk_report s1 = risk_report s"
    "awaiting_approval s1 = awaiting_approval s" "human_approval s1 = human_approval s"
    "critic_report s1 = critic_report s"
  using assms
  by (auto simp: executor_node_def Let_def state_log_def append_message_def ensure_not_paused_def
      split: if_splits sum.splits)

lemma compliance_review_ok:
  "\<exists>rep. compliance_review COMPLIANCE [] [] = Inr rep"
  by (simp add: compliance_review_def COMPLIANCE_def validate_tool_access_def Let_def)

lemma executor_execute_ok:
  "yf_download w k = Inr rows \<Longrightarrow> rows \<noteq> [] \<Longrightarrow>
   \<exists>arts. executor_execute EXECUTOR w k p = Inr arts"
  by (simp add: executor_execute_def EXECUTOR_def validate_tool_access_def Let_def
      fetch_market_data_def)

lemma executor_node_ok:
  assumes "\<not> pause_requested s" "\<not> pause_flag_exists w k" "\<not> truthy (failure_reason s)"
    and "yf_download w k = Inr rows" "rows \<noteq> []"
  shows "\<exists>s1. executor_node w k s = Inr s1 \<and> failure_reason s1 = failure_reason s
          \<and> active_node s1 = ''executor''
          \<and> logs s1 = logs s @ [''Executor produced analysis artifacts'', ''Compliance review completed'']"
proof -
  obtain arts where a: "executor_execute EXECUTOR w k (plan s) = Inr arts"
    using executor_execute_ok[OF assms(4,5)] by blast
  obtain rep where r: "compliance_review COMPLIANCE [] [] = Inr rep"
    using compliance_review_ok by blast
  show ?thesis
    using assms(1,2,3) a r
    by (simp add: executor_node_def Let_def ensure_not_paused_def state_log_def append_message_def)
qed

section \<open>Counting the runs of the executor\<close>

lemma executor_runs_log [simp]:
  "executor_runs (state_log m s) =
     executor_runs s + (if m = ''Executor produced analysis artifacts'' then 1 else 0)"
  by (simp add: executor_runs_def)

lemma executor_node_runs:
  "executor_node w k s = Inr s1 \<Longrightarrow> executor_runs s1 \<le> executor_runs s + 1"
  by (auto simp: executor_node_def Let_def append_message_def executor_runs_def state_log_def
      split: if_splits sum.splits)

lemma critic_retry_decision_runs [simp]:
  "executor_runs (critic_retry_decision s) = executor_runs s"
  by (simp add: critic_retry_decision_def Let_def) (simp add: executor_runs_def)

lemma executor_runs_unlogged [simp]:
  "executor_runs (ensure_not_paused f s) = executor_runs s"
  "executor_runs (critic_threshold_check cfg pc s) = executor_runs s"
  "executor_runs (reviewed s) = executor_runs s"
  by (simp_all add: executor_runs_def)

lemma critic_node_runs:
  "critic_node w cfg k s1 = Inr s2 \<Longrightarrow> executor_runs s2 = executor_runs s1"
  using critic_node_cases[of w cfg k s1]
  by (auto simp: critic_decided_def split: if_splits)

lemma risk_manager_node_runs [simp]:
  "executor_runs (risk_manager_node w k s) = executor_runs s"
  by (simp add: risk_manager_node_def Let_def append_message_def)
     (simp add: executor_runs_def)

lemma human_approval_node_runs [simp]:
  "executor_runs (human_approval_node w k s) = executor_runs s"
  by (simp add: human_approval_node_def Let_def append_message_def)
     (simp add: executor_runs_def)

lemma risk_stage_runs [simp]: "executor_runs (risk_stage w k s) = executor_runs s"
  by (simp add: risk_stage_def Let_def)

lemma planner_node_runs [simp]: "executor_runs (planner_node w k s) = executor_runs s"
  by (simp add: planner_node_def Let_def append_message_def)
     (simp add: executor_runs_def)

lemma executor_stage_runs:
  "executor_stage w cfg k s = Inr f \<Longrightarrow>
   executor_runs f \<le> executor_runs s + 1 + nat (max_retries s - retry_count s)"
proof (induction w cfg k s rule: executor_stage.induct)
  case (1 w cfg k state)
  from "1.prems" obtain s1 where e: "executor_node w k state = Inr s1"
    by (subst (asm) executor_stage.simps) (auto split: sum.splits)
  obtain s2 where c: "critic_node w cfg (k + 1) s1 = Inr s2"
    by (simp add: critic_node_cases)
  have r1: "executor_runs s2 \<le> executor_runs state + 1"
    using executor_node_runs[OF e] critic_node_runs[OF c] by simp
  show ?case
  proof (cases "route_after_critic s2 = ''executor''")
    case True
    from "1.prems" e c True have f: "executor_stage w cfg (k + 2) s2 = Inr f"
      by (subst (asm) executor_stage.simps) simp
    from "1.IH"[OF e c True f]
    have "executor_runs f \<le> executor_runs s2 + 1 + nat (max_retries s2 - retry_count s2)" .
    moreover from critic_route_executor[OF c True] executor_node_counts[OF e]
    have "nat (max_retries s2 - retry_count s2) + 1 = nat (max_retries state - retry_count state)"
      by linarith
    ultimately show ?thesis using r1 by linarith
  next
    case False
    from "1.prems" e c False
    have "f = risk_stage w (k + 2) s2 \<or> f = s2"
      by (subst (asm) executor_stage.simps) (auto split: if_splits)
    then have "executor_runs f = executor_runs s2" by auto
    with r1 show ?thesis by simp
  qed
qed

lemma initial_state_fields [simp]:
  "retry_count (initial_state cfg h) = 0"
  "max_retries (initial_state cfg h) = MAX_RETRIES cfg"
  "failure_reason (initial_state cfg h) = None"
  "pause_requested (initial_state cfg h) = False"
  "logs (initial_state cfg h) = []"
  "active_node (initial_state cfg h) = []"
  "risk_report (initial_state cfg h) = empty_risk_report"
  "awaiting_approval (initial_state cfg h) = False"
  "human_approval (initial_state cfg h) = False"
  "plan (initial_state cfg h) = []"
  by (simp_all add: initial_state_def GraphState_def append_message_def Let_def)

lemma planner_node_counts [simp]:
  "retry_count (planner_node w k s) = retry_count s"
  "max_retries (planner_node w k s) = max_retries s"
  by (simp_all add: planner_node_def Let_def append_message_def state_log_def)

lemma graph_invoke_runs:
  "graph_invoke w cfg (initial_state cfg h) = Inr f \<Longrightarrow>
   executor_runs f \<le> 1 + nat (MAX_RETRIES cfg)"
  using executor_stage_runs[of w cfg 1 "planner_node w 0 (initial_state cfg h)" f]
  by (simp add: graph_invoke_def) (simp add: executor_runs_def)

section \<open>The retry loop\<close>

lemma executor_runs_critic_decided [simp]:
  "executor_runs (critic_decided cfg s) = executor_runs s"
  by (simp add: critic_decided_def)

lemma critic_decided_retry_count:
  "veto (critic_report (critic_decided cfg s)) = Some True \<Longrightarrow>
   retry_count (critic_decided cfg s) =
     (if retry_count s < max_retries s then retry_count s + 1 else retry_count s)"
  by (simp add: critic_decided_veto)

lemma critic_decided_failure:
  "veto (critic_report (critic_decided cfg s)) = Some True \<Longrightarrow>
   failure_reason (critic_decided cfg s) =
     (if retry_count s < max_retries s then failure_reason s
      else Some ''Max retries exceeded after critic veto.'')"
  by (simp add: critic_decided_veto)

lemma critic_decided_route:
  assumes "veto (critic_report (critic_decided cfg s)) = Some True"
    and "\<not> pause_requested s" and "\<not> truthy (failure_reason s)"
  shows "route_after_critic (critic_decided cfg s) =
     (if retry_count s < max_retries s then ''executor'' else ''fail'')"
  using assms
  by (simp add: route_after_critic_def critic_decided_failure get_or_def)

lemma critic_node_executed:
  "\<not> pause_requested s \<Longrightarrow> \<not> pause_flag_exists w k \<Longrightarrow> \<not> truthy (failure_reason s) \<Longrightarrow>
   critic_node w cfg k s = Inr (critic_decided cfg s)"
  by (simp add: critic_node_cases ensure_not_paused_id)

lemma raise_on_failure_reason:
  "failure_reason s = Some r \<Longrightarrow> r \<noteq> [] \<Longrightarrow> raise_on_failure s = Inl (RuntimeError r)"
  by (simp add: raise_on_failure_def get_or_def)

lemma downloads_succeed_rows:
  assumes "downloads_succeed w"
  shows "\<exists>rows. yf_download w k = Inr rows \<and> rows \<noteq> []"
proof (cases "yf_download w k")
  case (Inl exc)
  with assms show ?thesis
    by (auto simp: downloads_succeed_def dest!: spec[of _ k])
next
  case (Inr rows)
  with assms show ?thesis
    by (auto simp: downloads_succeed_def dest!: spec[of _ k])
qed

lemma executor_stage_exhausts:
  assumes "never_paused w" and "downloads_succeed w" and "0 < PC_THRESHOLD cfg"
  shows "\<not> pause_requested s \<Longrightarrow> \<not> truthy (failure_reason s) \<Longrightarrow>
     \<exists>f. executor_stage w cfg k s = Inr f
        \<and> failure_reason f = Some ''Max retries exceeded after critic veto.''
        \<and> executor_runs f = executor_runs s + 1 + nat (max_retries s - retry_count s)
        \<and> active_node f = ''critic''"
  using assms
proof (induction w cfg k s rule: executor_stage.induct)
  case (1 w cfg k state)
  have np: "\<not> pause_flag_exists w k" "\<not> pause_flag_exists w (k + 1)"
    using "1.prems"(3) by (simp_all add: never_paused_def)
  obtain rows where d: "yf_download w k = Inr rows" "rows \<noteq> []"
    using downloads_succeed_rows[OF "1.prems"(4), of k] by blast
  from executor_node_ok[OF "1.prems"(1) np(1) "1.prems"(2) d]
  obtain s1 where e: "executor_node w k state = Inr s1"
    and f1: "failure_reason s1 = failure_reason state"
    and l1: "logs s1 = logs state @ [''Executor produced analysis artifacts'', ''Compliance review completed'']"
    by blast
  have p1: "\<not> pause_requested s1"
    using executor_node_fields(1)[OF e] "1.prems"(1) by simp
  have t1: "\<not> truthy (failure_reason s1)"
    using f1 "1.prems"(2) by simp
  have c1: "retry_count s1 = retry_count state" "max_retries s1 = max_retries state"
    using executor_node_counts[OF e] by simp_all
  have r1: "executor_runs s1 = executor_runs state + 1"
    by (simp add: executor_runs_def l1)
  let ?s2 = "critic_decided cfg s1"
  have c: "critic_node w cfg (k + 1) s1 = Inr ?s2"
    using p1 np(2) t1 by (rule critic_node_executed)
  have v: "veto (critic_report ?s2) = Some True"
    using "1.prems"(5) by (rule critic_decided_forced)
  note rt = critic_decided_route[OF v p1 t1]
  show ?case
  proof (cases "retry_count s1 < max_retries s1")
    case True
    then have route: "route_after_critic ?s2 = ''executor''"
      using rt by simp
    have p2: "\<not> pause_requested ?s2" using p1 by simp
    have t2: "\<not> truthy (failure_reason ?s2)"
      using critic_decided_failure[OF v] True t1 by simp
    from "1.IH"[OF e c route p2 t2 "1.prems"(3,4,5)]
    obtain f where f: "executor_stage w cfg (k + 2) ?s2 = Inr f"
      and fr: "failure_reason f = Some ''Max retries exceeded after critic veto.''"
      and fn: "executor_runs f = executor_runs ?s2 + 1 + nat (max_retries ?s2 - retry_count ?s2)"
      and fa: "active_node f = ''critic''"
      by blast
    have st: "executor_stage w cfg k state = Inr f"
      using e c route f by (subst executor_stage.simps) simp
    have "retry_count ?s2 = retry_count s1 + 1"
      using critic_decided_retry_count[OF v] True by simp
    with fn r1 c1 True
    have "executor_runs f = executor_runs state + 1 + nat (max_retries state - retry_count state)"
      by simp
    with st fr fa show ?thesis by blast
  next
    case False
    then have route: "route_after_critic ?s2 = ''fail''"
      using rt by simp
    have st: "executor_stage w cfg k state = Inr ?s2"
      using e c route by (subst executor_stage.simps) simp
    have fr: "failure_reason ?s2 = Some ''Max retries exceeded after critic veto.''"
      using critic_decided_failure[OF v] False by simp
    have "executor_runs ?s2 = executor_runs state + 1 + nat (max_retries state - retry_count state)"
      using r1 c1 False by simp
    with st fr show ?thesis by simp
  qed
qed

lemma planner_node_fields [simp]:
  "pause_requested (planner_node w k s) = pause_requested s"
  by (simp add: planner_node_def Let_def append_message_def)

lemma planner_node_executed:
  "\<not> pause_requested s \<Longrightarrow> \<not> pause_flag_exists w k \<Longrightarrow> \<not> truthy (failure_reason s) \<Longrightarrow>
   failure_reason (planner_node w k s) = failure_reason s"
  by (simp add: planner_node_def Let_def append_message_def ensure_not_paused_id)

lemma graph_invoke_exhausts:
  assumes "never_paused w" and "downloads_succeed w" and "0 < PC_THRESHOLD cfg"
  shows "\<exists>f. graph_invoke w cfg (initial_state cfg h) = Inr f
        \<and> failure_reason f = Some ''Max retries exceeded after critic veto.''
        \<and> executor_runs f = 1 + nat (MAX_RETRIES cfg)
        \<and> active_node f = ''critic''"
proof -
  let ?p = "planner_node w 0 (initial_state cfg h)"
  have np: "\<not> pause_flag_exists w 0"
    using assms(1) by (simp add: never_paused_def)
  have a: "\<not> pause_requested ?p" by simp
  have b: "\<not> truthy (failure_reason ?p)"
    using planner_node_executed[of "initial_state cfg h" w 0] np by simp
  have r: "executor_runs (initial_state cfg h) = 0"
    by (simp add: executor_runs_def)
  from executor_stage_exhausts[OF assms a b, of 1] r
  show ?thesis
    by (simp add: graph_invoke_def)
qed

end
